theory Spec2Isabelle
  imports Complex_Main "HOL-Library.Multiset"
begin

section \<open>Errors and numeric helpers\<close>

text \<open>
  The Python exceptions that the modelled functions can raise. A function that can raise
  returns \<open>error + 'a\<close>, with \<open>Inl\<close> carrying the exception.
\<close>

datatype error = ValueError | IndexError | TypeError

text \<open>Python's slice \<open>xs[a:b]\<close> for \<open>0 \<le> a\<close> and \<open>0 \<le> b\<close>.\<close>

definition slice :: "'a list \<Rightarrow> nat \<Rightarrow> nat \<Rightarrow> 'a list" where
  "slice xs a b = take (b - a) (drop a xs)"

definition mean :: "real list \<Rightarrow> real" where
  "mean xs = sum_list xs / real (length xs)"

text \<open>
  \<open>np.std\<close> with its default \<open>ddof = 0\<close>: the square root of the mean squared
  deviation from the mean.
\<close>

definition np_std :: "real list \<Rightarrow> real" where
  "np_std xs = sqrt (mean (map (\<lambda>x. (x - mean xs)\<^sup>2) xs))"

text \<open>
  \<open>np.argmax\<close>: the first index holding the maximum; it raises ValueError on an empty
  array. The auxiliary function is the left-to-right scan keeping the best index so far.
\<close>

fun argmax_scan :: "nat \<Rightarrow> real \<Rightarrow> nat \<Rightarrow> real list \<Rightarrow> nat" where
  "argmax_scan best bv i [] = best"
| "argmax_scan best bv i (x # xs) =
     (if bv < x then argmax_scan i x (Suc i) xs else argmax_scan best bv (Suc i) xs)"

definition np_argmax :: "real list \<Rightarrow> error + nat" where
  "np_argmax xs = (case xs of [] \<Rightarrow> Inl ValueError | x # r \<Rightarrow> Inr (argmax_scan 0 x 1 r))"

section \<open>Dendrogram statistics: \<open>dendro_stats.py\<close>\<close>

subsection \<open>\<open>std_window\<close>\<close>

text \<open>
  \<open>std_window(y, size)\<close>. \<open>half_size = (size - 1) // 2\<close>, \<open>shape\<close> is the length of
  \<open>y\<close>, and \<open>stds\<close> is allocated with \<open>shape - size + 1\<close> entries, which raises ValueError
  when that number is negative. The loop runs over \<open>i\<close> in
  \<open>range(half_size, shape - half_size)\<close> and stores \<open>np.std(y[i - half_size: i + half_size])\<close>
  at \<open>i - half_size\<close>. For an even \<open>size\<close> the loop has one more iteration than \<open>stds\<close>
  has entries, so the last store raises IndexError. For an odd \<open>size\<close> every entry is
  written, and \<open>np.argmax\<close> raises ValueError when there is none.
\<close>

definition window_stds :: "real list \<Rightarrow> nat \<Rightarrow> real list" where
  "window_stds y half_size =
     map (\<lambda>i. np_std (slice y (i - half_size) (i + half_size)))
         [half_size ..< length y - half_size]"

definition std_window :: "real list \<Rightarrow> nat \<Rightarrow> error + nat" where
  "std_window y wsize =
     (let half_size = (wsize - 1) div 2; shape = length y in
      if shape + 1 < wsize then Inl ValueError
      else if even wsize then Inl IndexError
      else (case np_argmax (window_stds y half_size) of
              Inl e \<Rightarrow> Inl e
            | Inr k \<Rightarrow> Inr (k + half_size)))"

text \<open>
  The statistic as the docstring describes it (``a moving standard deviation window'',
  \<open>size\<close> the ``odd integer which sets the window size''): the standard deviation of the
  \<open>size\<close> values centred at \<open>i\<close>, that is of \<open>y[i - half_size: i + half_size + 1]\<close>.
  This definition follows the specification and is only compared with \<open>std_window\<close>.
\<close>

definition window_stds_centred :: "real list \<Rightarrow> nat \<Rightarrow> real list" where
  "window_stds_centred y half_size =
     map (\<lambda>i. np_std (slice y (i - half_size) (i + half_size + 1)))
         [half_size ..< length y - half_size]"

definition std_window_centred :: "real list \<Rightarrow> nat \<Rightarrow> error + nat" where
  "std_window_centred y wsize =
     (let half_size = (wsize - 1) div 2; shape = length y in
      if shape + 1 < wsize then Inl ValueError
      else if even wsize then Inl IndexError
      else (case np_argmax (window_stds_centred y half_size) of
              Inl e \<Rightarrow> Inl e
            | Inr k \<Rightarrow> Inr (k + half_size)))"

subsection \<open>\<open>Dendrogram_Stats.fit_numfeat\<close>\<close>

text \<open>
  The regression is delegated to statsmodels (\<open>sm.OLS(endog, sm.add_constant(exog)).fit()\<close>),
  which is not part of the repository: it is the parameter \<open>ols\<close>, called with the
  dependent values first, and its result carries the coefficient vector \<open>params\<close> and the
  standard errors \<open>bse\<close>.
\<close>

record ols_results =
  params :: "real list"
  bse :: "real list"

record tail_fit =
  break_pos :: real
  fitvals :: "real list \<times> real list"
  model :: ols_results
  tail_slope :: real
  tail_slope_err :: real

text \<open>
  \<open>fit_numfeat(size)\<close> on the object's \<open>min_deltas\<close> and \<open>numfeatures\<close>. With a single
  level it warns and returns without a fit (\<open>Inr None\<close>). The boolean mask
  \<open>numfeatures > 1\<close> is applied to both arrays (NumPy raises IndexError when a mask and
  the array it indexes differ in length).
\<close>

definition fit_numfeat ::
  "(real list \<Rightarrow> real list \<Rightarrow> ols_results) \<Rightarrow> real list \<Rightarrow> int list \<Rightarrow> nat
     \<Rightarrow> error + tail_fit option" where
  "fit_numfeat ols min_deltas numfeatures wsize =
     (if length numfeatures = 1 then Inr None
      else if length min_deltas \<noteq> length numfeatures then Inl IndexError
      else
        let nums = filter (\<lambda>n. 1 < n) numfeatures;
            deltas = map fst (filter (\<lambda>(d, n). 1 < n) (zip min_deltas numfeatures))
        in case std_window (map real_of_int nums) wsize of
             Inl e \<Rightarrow> Inl e
           | Inr bp \<Rightarrow>
               if length deltas \<le> bp then Inl IndexError
               else
                 let fv = (map (log 10) (drop bp deltas),
                           map (\<lambda>n. log 10 (real_of_int n)) (drop bp nums));
                     m = ols (snd fv) (fst fv)
                 in Inr (Some \<lparr> break_pos = deltas ! bp, fitvals = fv, model = m,
                                 tail_slope = last (params m),
                                 tail_slope_err = last (bse m) \<rparr>))"

subsection \<open>\<open>Dendrogram_Stats.make_hists\<close>\<close>

text \<open>
  \<open>np.linspace(a, b, num)\<close> with the end point included, and \<open>np.histogram(a, bins)\<close> for
  an integer \<open>bins\<close>: it raises ValueError unless \<open>bins\<close> is positive, takes the range
  from the data (\<open>(0, 1)\<close> for no data, widened by one half on each side when minimum and
  maximum coincide), and counts in half-open bins, the last one closed. It returns the
  counts and the \<open>bins + 1\<close> edges.
\<close>

definition linspace :: "real \<Rightarrow> real \<Rightarrow> nat \<Rightarrow> real list" where
  "linspace a b num =
     (if num = 1 then [a]
      else map (\<lambda>i. a + real i * ((b - a) / real (num - 1))) [0..<num])"

definition hist_range :: "real list \<Rightarrow> real \<times> real" where
  "hist_range a =
     (let (lo, hi) = (if a = [] then (0, 1) else (Min (set a), Max (set a)))
      in if lo = hi then (lo - 1 / 2, hi + 1 / 2) else (lo, hi))"

definition np_histogram :: "real list \<Rightarrow> nat \<Rightarrow> error + (nat list \<times> real list)" where
  "np_histogram a bins =
     (if bins = 0 then Inl ValueError
      else
        let (lo, hi) = hist_range a;
            edges = linspace lo hi (bins + 1);
            hist = map (\<lambda>i. length (filter (\<lambda>x. edges ! i \<le> x \<and>
                                 (if i = bins - 1 then x \<le> edges ! (i + 1)
                                  else x < edges ! (i + 1))) a))
                       [0..<bins]
        in Inr (hist, edges))"

text \<open>The midpoints \<open>(bins[:-1] + bins[1:]) / 2\<close> of consecutive edges.\<close>

definition bin_centres :: "real list \<Rightarrow> real list" where
  "bin_centres edges = map (\<lambda>(a, b). (a + b) / 2) (zip (butlast edges) (tl edges))"

text \<open>
  \<open>make_hists(min_number, **kwargs)\<close> over \<open>self.values\<close>. Of the keyword arguments only an
  integer \<open>bins\<close> is modelled (\<open>None\<close>: not given). A level with fewer than \<open>min_number\<close>
  values gets the placeholder, two empty arrays. Otherwise the bin count is
  \<open>int(np.sqrt(len(value)))\<close> unless \<open>bins\<close> is among the keyword arguments, in which case
  it is used and popped, so that the following levels no longer find it. An exception
  leaves the loop before \<open>self._hists\<close> is assigned.
\<close>

fun make_hists_loop ::
  "int \<Rightarrow> nat option \<Rightarrow> real list list \<Rightarrow> error + (real list \<times> nat list) list" where
  "make_hists_loop min_number kwargs [] = Inr []"
| "make_hists_loop min_number kwargs (value # rest) =
     (if int (length value) < min_number then
        (case make_hists_loop min_number kwargs rest of
           Inl e \<Rightarrow> Inl e
         | Inr hists \<Rightarrow> Inr (([], []) # hists))
      else
        let bins = (case kwargs of None \<Rightarrow> nat \<lfloor>sqrt (real (length value))\<rfloor>
                                 | Some b \<Rightarrow> b)
        in case np_histogram value bins of
             Inl e \<Rightarrow> Inl e
           | Inr (hist, edges) \<Rightarrow>
               (case make_hists_loop min_number None rest of
                  Inl e \<Rightarrow> Inl e
                | Inr hists \<Rightarrow> Inr ((bin_centres edges, hist) # hists)))"

definition make_hists ::
  "int \<Rightarrow> nat option \<Rightarrow> real list list \<Rightarrow> error + (real list \<times> nat list) list" where
  "make_hists min_number kwargs vals = make_hists_loop min_number kwargs vals"

section \<open>The elliptical power-law fit: \<open>elliptical_powerlaw.py\<close>\<close>

text \<open>
  Floating-point numbers are modelled as reals with one extra value for NaN; infinities,
  rounding and overflow are not modelled.
\<close>

datatype npfloat = NaN | Fin real

definition isfinite :: "npfloat \<Rightarrow> bool" where
  "isfinite v = (case v of NaN \<Rightarrow> False | Fin r \<Rightarrow> True)"

definition fin_val :: "npfloat \<Rightarrow> real" where
  "fin_val v = (case v of NaN \<Rightarrow> 0 | Fin r \<Rightarrow> r)"

text \<open>Python's \<open>a % b\<close> on floats for a positive \<open>b\<close>: the result lies in \<open>[0, b)\<close>.\<close>

definition py_fmod :: "real \<Rightarrow> real \<Rightarrow> real" where
  "py_fmod a b = a - b * of_int \<lfloor>a / b\<rfloor>"

subsection \<open>\<open>LogEllipticalPowerLaw2D\<close>\<close>

text \<open>The four parameters of the model, in the order of the class.\<close>

record ell_params =
  logamplitude :: real
  ellip_transf :: real
  theta :: real
  gamma :: real

text \<open>
  \<open>evaluate\<close> at one point. \<open>np.log10\<close> is \<open>-inf\<close> at 0 and NaN below, so the model
  value is not finite exactly when the argument of the logarithm is not positive; these
  entries are set to 0.
\<close>

definition evaluate_point :: "ell_params \<Rightarrow> real \<Rightarrow> real \<Rightarrow> real" where
  "evaluate_point p x y =
     (let ellip = 1 / (1 + exp (- ellip_transf p));
          costhet = cos (theta p);
          sinthet = sin (theta p);
          q = ellip;
          term1 = (q * costhet)\<^sup>2 + sinthet\<^sup>2;
          term2 = 2 * (1 - q\<^sup>2) * sinthet * costhet;
          term3 = (q * sinthet)\<^sup>2 + costhet\<^sup>2;
          arg = x\<^sup>2 * term1 + x * y * term2 + y\<^sup>2 * term3
      in if arg \<le> 0 then 0
         else logamplitude p + 0.5 * gamma p * log 10 arg)"

definition evaluate :: "ell_params \<Rightarrow> real list \<Rightarrow> real list \<Rightarrow> real list" where
  "evaluate p x y = map (\<lambda>(a, b). evaluate_point p a b) (zip x y)"

subsection \<open>Fitter objects\<close>

text \<open>
  The Levenberg-Marquardt minimiser is astropy's; it is the parameter \<open>lm\<close> of the model:
  from a start model and the data \<open>x\<close>, \<open>y\<close>, \<open>z\<close> it yields the fitted parameters and
  the covariance matrix, or no matrix when its computation fails.

  A \<open>LevMarLSQFitter\<close> object keeps the outcome of its last call in \<open>fit_info\<close>; a new
  object has \<open>fit_info['param_cov']\<close> equal to \<open>None\<close>. Objects live in a heap, a list
  holding each object's \<open>param_cov\<close>, and are referred to by their index, so that it is
  visible which object a call writes to and which object is read in the end.
\<close>

type_synonym cov_matrix = "real list list"

type_synonym minimiser =
  "ell_params \<Rightarrow> real list \<Rightarrow> real list \<Rightarrow> real list \<Rightarrow> ell_params \<times> cov_matrix option"

type_synonym fitter_heap = "cov_matrix option list"

definition new_fitter :: "fitter_heap \<Rightarrow> nat \<times> fitter_heap" where
  "new_fitter h = (length h, h @ [None])"

definition call_fitter ::
  "minimiser \<Rightarrow> nat \<Rightarrow> ell_params \<Rightarrow> real list \<Rightarrow> real list \<Rightarrow> real list \<Rightarrow> fitter_heap
     \<Rightarrow> ell_params \<times> fitter_heap" where
  "call_fitter lm f m x y z h = (let (fitted, c) = lm m x y z in (fitted, h[f := c]))"

subsection \<open>Percentiles\<close>

text \<open>
  \<open>np.percentile(a, q)\<close> with the default linear interpolation: on the sorted data the
  value at the fractional index \<open>q / 100 * (n - 1)\<close>. It raises ValueError for \<open>q\<close>
  outside \<open>[0, 100]\<close>, and gives NaN when there is no data.
\<close>

definition np_percentile :: "real list \<Rightarrow> real \<Rightarrow> error + npfloat" where
  "np_percentile a q =
     (if q < 0 \<or> 100 < q then Inl ValueError
      else if a = [] then Inr NaN
      else
        let s = sort a;
            idx = q / 100 * real (length a - 1);
            lo = nat \<lfloor>idx\<rfloor>;
            hi = min (lo + 1) (length a - 1);
            g = idx - real lo
        in Inr (Fin (s ! lo + g * (s ! hi - s ! lo))))"

subsection \<open>\<open>fit_elliptical_powerlaw\<close>\<close>

text \<open>
  The sum of absolute residuals \<open>np.sum(np.abs(values - fit_model(x, y)))\<close>, and the
  residuals themselves.
\<close>

definition residuals :: "real list \<Rightarrow> ell_params \<Rightarrow> real list \<Rightarrow> real list \<Rightarrow> real list" where
  "residuals vals m x y = map (\<lambda>(v, e). v - e) (zip vals (evaluate m x y))"

definition abs_resid_sum :: "real list \<Rightarrow> ell_params \<Rightarrow> real list \<Rightarrow> real list \<Rightarrow> real" where
  "abs_resid_sum vals m x y = sum_list (map abs (residuals vals m x y))"

text \<open>
  \<open>resid[np.random.permutation(resid.size)]\<close>: \<open>np.random.permutation(n)\<close> returns the
  numbers \<open>0, \<dots>, n - 1\<close> in a random order, and indexing with it reorders \<open>resid\<close>. The
  random generator is the parameter \<open>draws\<close> of the model, \<open>draws i\<close> being the order
  returned in iteration \<open>i\<close>. The possible outcomes for a given \<open>n\<close> are all orderings of
  \<open>[0..<n]\<close>.
\<close>

definition reindex :: "real list \<Rightarrow> nat list \<Rightarrow> real list" where
  "reindex resid perm = map (\<lambda>j. resid ! j) perm"

fun insert_everywhere :: "'a \<Rightarrow> 'a list \<Rightarrow> 'a list list" where
  "insert_everywhere a [] = [[a]]"
| "insert_everywhere a (x # xs) = (a # x # xs) # map ((#) x) (insert_everywhere a xs)"

fun orderings :: "'a list \<Rightarrow> 'a list list" where
  "orderings [] = [[]]"
| "orderings (x # xs) = concat (map (insert_everywhere x) (orderings xs))"

definition permutation_outcomes :: "nat \<Rightarrow> nat list list" where
  "permutation_outcomes n = orderings [0..<n]"

text \<open>
  One iteration of the bootstrap loop: a new fitter \<open>boot_fit\<close>,
  \<open>resamp_y = y + resid[np.random.permutation(resid.size)]\<close>, and
  \<open>boot_fit(fit_model, x, resamp_y, values)\<close>, whose arguments after the model are the two
  coordinate arrays and the data. It yields the column \<open>boot_model.parameters\<close>.
\<close>

definition resamp_y :: "real list \<Rightarrow> real list \<Rightarrow> nat list \<Rightarrow> real list" where
  "resamp_y y resid perm = map (\<lambda>(a, b). a + b) (zip y (reindex resid perm))"

definition boot_iteration ::
  "minimiser \<Rightarrow> ell_params \<Rightarrow> real list \<Rightarrow> real list \<Rightarrow> real list \<Rightarrow> real list \<Rightarrow> nat list
     \<Rightarrow> fitter_heap \<Rightarrow> ell_params \<times> fitter_heap" where
  "boot_iteration lm fit_model vals x y resid perm h =
     (let (boot_fit, h1) = new_fitter h
      in call_fitter lm boot_fit fit_model x (resamp_y y resid perm) vals h1)"

fun boot_loop ::
  "minimiser \<Rightarrow> (nat \<Rightarrow> nat list) \<Rightarrow> ell_params \<Rightarrow> real list \<Rightarrow> real list \<Rightarrow> real list
     \<Rightarrow> real list \<Rightarrow> nat \<Rightarrow> nat \<Rightarrow> fitter_heap \<Rightarrow> ell_params list \<times> fitter_heap" where
  "boot_loop lm draws fit_model vals x y resid i 0 h = ([], h)"
| "boot_loop lm draws fit_model vals x y resid i (Suc k) h =
     (let (p, h1) = boot_iteration lm fit_model vals x y resid (draws i) h;
          (ps, h2) = boot_loop lm draws fit_model vals x y resid (Suc i) k h1
      in (p # ps, h2))"

text \<open>
  The standard error of one parameter from its bootstrap values:
  \<open>0.5 * (percentiles[1] - percentiles[0])\<close> with the percentiles
  \<open>100 * (0.5 - alpha / 2)\<close> and \<open>100 * (0.5 + alpha / 2)\<close>.
\<close>

definition percentile_stderr :: "real \<Rightarrow> real list \<Rightarrow> error + npfloat" where
  "percentile_stderr alpha row =
     (case np_percentile row (100 * (0.5 - alpha / 2)) of
        Inl e \<Rightarrow> Inl e
      | Inr lo \<Rightarrow>
          (case np_percentile row (100 * (0.5 + alpha / 2)) of
             Inl e \<Rightarrow> Inl e
           | Inr hi \<Rightarrow>
               Inr (case (lo, hi) of
                      (Fin l, Fin u) \<Rightarrow> Fin (0.5 * (u - l))
                    | _ \<Rightarrow> NaN)))"

definition parameters :: "ell_params \<Rightarrow> real list" where
  "parameters p = [logamplitude p, ellip_transf p, theta p, gamma p]"

definition bootstrap_stderrs :: "real \<Rightarrow> ell_params list \<Rightarrow> error + npfloat list" where
  "bootstrap_stderrs alpha cols =
     (case (percentile_stderr alpha (map logamplitude cols),
            percentile_stderr alpha (map ellip_transf cols),
            percentile_stderr alpha (map theta cols),
            percentile_stderr alpha (map gamma cols)) of
        (Inr a, Inr b, Inr c, Inr d) \<Rightarrow> Inr [a, b, c, d]
      | _ \<Rightarrow> Inl ValueError)"

text \<open>\<open>np.sqrt(np.abs(np.diag(cov_matrix)))\<close>.\<close>

definition diag :: "real list list \<Rightarrow> real list" where
  "diag m = map (\<lambda>i. m ! i ! i) [0..<min (length m) (if m = [] then 0 else length (hd m))]"

definition cov_stderrs :: "cov_matrix \<Rightarrow> npfloat list" where
  "cov_stderrs c = map (\<lambda>v. Fin (sqrt \<bar>v\<bar>)) (diag c)"

text \<open>
  The value returned: \<open>params, stderrs, fit_model, fitter\<close>, the last as the index of the
  fitter object together with the heap in which to look it up, and whether the warning
  about the covariance matrix was issued.
\<close>

record fit_result =
  res_params :: "real list"
  stderrs :: "npfloat list"
  fit_model :: ell_params
  fitter :: nat
  heap :: fitter_heap
  warned :: bool

text \<open>
  \<open>fit_elliptical_powerlaw(values, x, y, p0, fit_method, bootstrap, niters, alpha)\<close>;
  \<open>debug\<close> only prints and plots and is left out. The arrays are flat and of one length
  (NumPy raises ValueError when they cannot be combined), and \<open>p0\<close> has four entries.
  The statements are kept in the order of the source: the first fit with \<open>fitter\<close>, the
  second start model with theta moved by \<open>pi / 2\<close> modulo \<open>pi\<close>, a new object \<open>fitter_f\<close>,
  the second fit, which the source also runs with \<open>fitter\<close>, and the choice between the
  two by the residual sums.
\<close>

definition fit_elliptical_powerlaw ::
  "minimiser \<Rightarrow> (nat \<Rightarrow> nat list) \<Rightarrow> npfloat list \<Rightarrow> real list \<Rightarrow> real list \<Rightarrow> ell_params
     \<Rightarrow> string \<Rightarrow> bool \<Rightarrow> nat \<Rightarrow> real \<Rightarrow> error + fit_result" where
  "fit_elliptical_powerlaw lm draws values x y p0 fit_method bootstrap niters alpha =
     (if \<not> list_all isfinite values then Inl ValueError
      else if fit_method \<noteq> ''LevMarq'' then Inl ValueError
      else if \<not> (length x = length y \<and> length values = length x) then Inl ValueError
      else
        let vals = map fin_val values;
            model0 = p0;
            (fitter0, h1) = new_fitter [];
            (fit_model0, h2) = call_fitter lm fitter0 model0 x y vals h1;
            resids = abs_resid_sum vals fit_model0 x y;
            p0_f = p0 \<lparr> theta := py_fmod (theta p0 + pi / 2) pi \<rparr>;
            model_f = p0_f;
            (fitter_f, h3) = new_fitter h2;
            (fit_model_f, h4) = call_fitter lm fitter0 model_f x y vals h3;
            resids_f = abs_resid_sum vals fit_model_f x y;
            (fitter1, fit_model1) =
               (if resids > resids_f then (fitter_f, fit_model_f) else (fitter0, fit_model0))
        in if bootstrap then
             let resid = residuals vals fit_model1 x y;
                 (cols, h5) = boot_loop lm draws fit_model1 vals x y resid 0 niters h4
             in (case bootstrap_stderrs alpha cols of
                   Inl e \<Rightarrow> Inl e
                 | Inr se \<Rightarrow>
                     Inr \<lparr> res_params = parameters fit_model1, stderrs = se,
                           fit_model = fit_model1, fitter = fitter1, heap = h5,
                           warned = False \<rparr>)
           else
             (case h4 ! fitter1 of
                None \<Rightarrow>
                  Inr \<lparr> res_params = parameters fit_model1, stderrs = [NaN, NaN, NaN, NaN],
                        fit_model = fit_model1, fitter = fitter1, heap = h4,
                        warned = True \<rparr>
              | Some cov_matrix \<Rightarrow>
                  Inr \<lparr> res_params = parameters fit_model1, stderrs = cov_stderrs cov_matrix,
                        fit_model = fit_model1, fitter = fitter1, heap = h4,
                        warned = False \<rparr>))"

section \<open>Properties of the dendrogram statistics\<close>

subsection \<open>The window of \<open>std_window\<close>\<close>

lemma length_slice: "b \<le> length xs \<Longrightarrow> length (slice xs a b) = b - a"
  by (simp add: slice_def)

text \<open>
  Every window that \<open>std_window\<close> takes for an odd \<open>size\<close> holds \<open>size - 1\<close> values: the
  slice \<open>y[i - half_size: i + half_size]\<close> stops one short of \<open>i + half_size\<close>.
\<close>

lemma std_window_slice_length:
  assumes "odd wsize" and "(wsize - 1) div 2 \<le> i" and "i + (wsize - 1) div 2 \<le> length y"
  shows "length (slice y (i - (wsize - 1) div 2) (i + (wsize - 1) div 2)) = wsize - 1"
proof -
  from \<open>odd wsize\<close> have "2 * ((wsize - 1) div 2) = wsize - 1"
    by (auto elim: oddE)
  with assms(2,3) show ?thesis
    by (simp add: length_slice)
qed

text \<open>
  C2. The claim says that, for an odd window size \<open>w\<close>, the statistic at an interior
  position is the standard deviation of the \<open>w\<close> counts centred there, and that the break
  is where it is largest. The code's slice leaves out the last value of each window. On
  the counts \<open>9, 9, 9, 9, 9, 9, 2\<close> with \<open>w = 5\<close> the window the code takes at position 4
  is \<open>9, 9, 9, 9\<close>, every statistic is 0 and the code returns position 2, while the
  centred windows of five values have their largest standard deviation at position 4.
\<close>

theorem std_window_drops_last_value:
  "std_window [9, 9, 9, 9, 9, 9, 2] 5 = Inr 2 \<and>
   window_stds [9, 9, 9, 9, 9, 9, 2] 2 = [0, 0, 0] \<and>
   slice [9, 9, 9, 9, 9, 9, 2 :: real] (4 - 2) (4 + 2) = [9, 9, 9, 9] \<and>
   std_window_centred [9, 9, 9, 9, 9, 9, 2] 5 = Inr 4"
  by (simp add: std_window_def std_window_centred_def window_stds_def
      window_stds_centred_def np_argmax_def slice_def np_std_def mean_def upt_rec
      power2_eq_square)

subsection \<open>The levels used by \<open>fit_numfeat\<close>\<close>

lemma filter_zip_snd:
  "length ds = length ns \<Longrightarrow> map snd (filter (\<lambda>(d, n). P n) (zip ds ns)) = filter P ns"
  by (induction ds ns rule: list_induct2) auto

lemma drop_filter_zip_origin:
  assumes "k < length (drop bp (filter (\<lambda>(d, n). P n) (zip ds ns)))"
  shows "\<exists>j < length ns. j < length ds \<and> P (ns ! j) \<and>
           drop bp (filter (\<lambda>(d, n). P n) (zip ds ns)) ! k = (ds ! j, ns ! j)"
proof -
  let ?kept = "filter (\<lambda>(d, n). P n) (zip ds ns)"
  have "drop bp ?kept ! k \<in> set ?kept"
    using assms by (metis in_set_dropD nth_mem)
  then have "drop bp ?kept ! k \<in> set (zip ds ns)" and "P (snd (drop bp ?kept ! k))"
    by auto
  then show ?thesis
    by (metis in_set_zip prod.collapse)
qed

text \<open>
  C10. Whenever \<open>fit_numfeat\<close> produces a fit, the break position was found by
  \<open>std_window\<close> on the counts greater than 1 only, the fitted points are the \<open>log10\<close> of
  the (delta, count) pairs with count greater than 1 from the break position onward, in
  their order, the regression was run on exactly these points, and each of them comes from
  a level whose count is greater than 1.
\<close>

theorem fit_numfeat_uses_only_counts_above_one:
  assumes "fit_numfeat ols min_deltas numfeatures wsize = Inr (Some r)"
  shows "\<exists>bp. std_window (map real_of_int (filter (\<lambda>n. 1 < n) numfeatures)) wsize = Inr bp \<and>
           zip (fst (fitvals r)) (snd (fitvals r)) =
             map (\<lambda>(d, n). (log 10 d, log 10 (real_of_int n)))
                 (drop bp (filter (\<lambda>(d, n). 1 < n) (zip min_deltas numfeatures))) \<and>
           model r = ols (snd (fitvals r)) (fst (fitvals r)) \<and>
           (\<forall>k < length (fst (fitvals r)).
              \<exists>j < length numfeatures. 1 < numfeatures ! j \<and>
                 fst (fitvals r) ! k = log 10 (min_deltas ! j) \<and>
                 snd (fitvals r) ! k = log 10 (real_of_int (numfeatures ! j)))"
proof -
  let ?kept = "filter (\<lambda>(d, n). 1 < n) (zip min_deltas numfeatures)"
  let ?nums = "filter (\<lambda>n. 1 < n) numfeatures"
  from assms have len: "length min_deltas = length numfeatures"
    by (auto simp: fit_numfeat_def split: if_splits)
  have nums: "?nums = map snd ?kept"
    using filter_zip_snd [OF len, of "\<lambda>n. 1 < n"] by simp
  from assms obtain bp where
    bp: "std_window (map real_of_int ?nums) wsize = Inr bp" and
    fv: "fitvals r = (map (log 10) (drop bp (map fst ?kept)),
                      map (\<lambda>n. log 10 (real_of_int n)) (drop bp ?nums))" and
    m: "model r = ols (snd (fitvals r)) (fst (fitvals r))"
    by (auto simp: fit_numfeat_def Let_def split: if_splits sum.splits)
  have fst_fv: "fst (fitvals r) = map (\<lambda>p. log 10 (fst p)) (drop bp ?kept)"
    by (simp add: fv drop_map)
  have snd_fv: "snd (fitvals r) = map (\<lambda>p. log 10 (real_of_int (snd p))) (drop bp ?kept)"
    by (simp add: fv nums drop_map)
  have z: "zip (fst (fitvals r)) (snd (fitvals r)) =
             map (\<lambda>(d, n). (log 10 d, log 10 (real_of_int n))) (drop bp ?kept)"
    unfolding fst_fv snd_fv by (simp add: zip_map_map zip_same_conv_map case_prod_unfold)
  have origin: "\<exists>j < length numfeatures. 1 < numfeatures ! j \<and>
                 fst (fitvals r) ! k = log 10 (min_deltas ! j) \<and>
                 snd (fitvals r) ! k = log 10 (real_of_int (numfeatures ! j))"
    if k: "k < length (fst (fitvals r))" for k
  proof -
    from k have k': "k < length (drop bp ?kept)" by (simp add: fst_fv)
    from drop_filter_zip_origin [OF k'] obtain j where
      "j < length numfeatures" "1 < numfeatures ! j"
      "drop bp ?kept ! k = (min_deltas ! j, numfeatures ! j)" by blast
    then show ?thesis using k' by (auto simp: fst_fv snd_fv)
  qed
  from bp z m origin show ?thesis by blast
qed

text \<open>
  An instance: eight levels, the last with a single feature. The level with count 1 is
  dropped, the break is found on the seven remaining counts, and five points are fitted.
\<close>

theorem fit_numfeat_uses_only_counts_above_one_witness:
  "fit_numfeat (\<lambda>y x. \<lparr> params = [0, 0], bse = [0, 0] \<rparr>)
       [1, 2, 3, 4, 5, 6, 7, 8] [9, 9, 9, 9, 9, 9, 2, 1] 5 =
     Inr (Some \<lparr> break_pos = 3,
                 fitvals = ([log 10 3, log 10 4, log 10 5, log 10 6, log 10 7],
                            [log 10 9, log 10 9, log 10 9, log 10 9, log 10 2]),
                 model = \<lparr> params = [0, 0], bse = [0, 0] \<rparr>,
                 tail_slope = 0, tail_slope_err = 0 \<rparr>) \<and>
   (\<exists>bp. std_window (map real_of_int (filter (\<lambda>n. 1 < n) [9, 9, 9, 9, 9, 9, 2, 1])) 5 = Inr bp)"
proof -
  have h: "fit_numfeat (\<lambda>y x. \<lparr> params = [0, 0], bse = [0, 0] \<rparr>)
       [1, 2, 3, 4, 5, 6, 7, 8] [9, 9, 9, 9, 9, 9, 2, 1] 5 =
     Inr (Some \<lparr> break_pos = 3,
                 fitvals = ([log 10 3, log 10 4, log 10 5, log 10 6, log 10 7],
                            [log 10 9, log 10 9, log 10 9, log 10 9, log 10 2]),
                 model = \<lparr> params = [0, 0], bse = [0, 0] \<rparr>,
                 tail_slope = 0, tail_slope_err = 0 \<rparr>)"
    by (simp add: fit_numfeat_def std_window_def window_stds_def np_argmax_def slice_def
        np_std_def mean_def upt_rec)
  from fit_numfeat_uses_only_counts_above_one [OF h] h show ?thesis
    by blast
qed

subsection \<open>The bin count of \<open>make_hists\<close>\<close>

lemma length_linspace: "length (linspace a b num) = num"
  by (simp add: linspace_def)

lemma length_bin_centres: "length (bin_centres edges) = length edges - 1"
  by (simp add: bin_centres_def)

lemma np_histogram_lengths:
  assumes "0 < bins"
  shows "\<exists>hist edges. np_histogram a bins = Inr (hist, edges) \<and>
           length hist = bins \<and> length edges = bins + 1"
  using assms by (simp add: np_histogram_def Let_def length_linspace split: prod.splits)

lemma floor_sqrt_pos:
  assumes "0 < n"
  shows "0 < nat \<lfloor>sqrt (real n)\<rfloor>"
proof -
  from assms have "1 \<le> sqrt (real n)" by simp
  then have "1 \<le> \<lfloor>sqrt (real n)\<rfloor>" by linarith
  then show ?thesis by simp
qed

lemma floor_sqrt_15: "\<lfloor>sqrt 15\<rfloor> = 3"
proof -
  have "3 \<le> sqrt 15" by (rule real_le_rsqrt) simp
  moreover have "sqrt 15 < 4" by (rule real_less_lsqrt) simp_all
  ultimately show ?thesis by linarith
qed

lemma round_sqrt_15: "round (sqrt 15) = 4"
proof -
  have "7 / 2 \<le> sqrt 15" by (rule real_le_rsqrt) (simp add: power2_eq_square)
  moreover have "sqrt 15 < 9 / 2" by (rule real_less_lsqrt) (simp_all add: power2_eq_square)
  ultimately show ?thesis unfolding round_def by linarith
qed

text \<open>
  C4, as stated, fails: a level of 15 values with the default \<open>min_number = 10\<close> and no
  \<open>bins\<close> argument gets a histogram of 3 bins, \<open>int(sqrt(15))\<close>, while
  \<open>round(sqrt(15))\<close> is 4.
\<close>

theorem make_hists_bins_not_rounded:
  "make_hists 10 None [[0, 1, 2, 3, 4, 5, 6, 7, 8, 9, 10, 11, 12, 13, 14]] =
     Inr [([7 / 3, 7, 35 / 3], [5, 5, 5])] \<and>
   nat (round (sqrt (real (length [0, 1, 2, 3, 4, 5, 6, 7, 8, 9, 10, 11, 12, 13, 14 :: real])))) = 4"
  by (simp add: make_hists_def floor_sqrt_15 round_sqrt_15 np_histogram_def hist_range_def
      linspace_def bin_centres_def upt_rec)

text \<open>
  C4, amended. For \<open>min_number\<close> at least 1 and no \<open>bins\<close> argument, \<open>make_hists\<close> records
  one entry per level: the placeholder of two empty arrays when the level has fewer than
  \<open>min_number\<close> values, and otherwise a histogram whose number of bins (bin centres and
  counts alike) is the integer part of \<open>sqrt(N)\<close>.
\<close>

theorem make_hists_default_bins:
  assumes "1 \<le> min_number"
  shows "\<exists>hists. make_hists min_number None vals = Inr hists \<and>
           length hists = length vals \<and>
           (\<forall>i < length vals.
              if int (length (vals ! i)) < min_number then hists ! i = ([], [])
              else length (fst (hists ! i)) = nat \<lfloor>sqrt (real (length (vals ! i)))\<rfloor> \<and>
                   length (snd (hists ! i)) = nat \<lfloor>sqrt (real (length (vals ! i)))\<rfloor>)"
  unfolding make_hists_def
proof (induction vals)
  case Nil
  show ?case by simp
next
  case (Cons v rest)
  then obtain hs where hs: "make_hists_loop min_number None rest = Inr hs"
    "length hs = length rest"
    and ih: "\<forall>i < length rest.
              if int (length (rest ! i)) < min_number then hs ! i = ([], [])
              else length (fst (hs ! i)) = nat \<lfloor>sqrt (real (length (rest ! i)))\<rfloor> \<and>
                   length (snd (hs ! i)) = nat \<lfloor>sqrt (real (length (rest ! i)))\<rfloor>"
    by blast
  show ?case
  proof (cases "int (length v) < min_number")
    case True
    then have "make_hists_loop min_number None (v # rest) = Inr (([], []) # hs)"
      by (simp add: hs)
    moreover have "\<forall>i < length (v # rest).
        if int (length ((v # rest) ! i)) < min_number then (([], []) # hs) ! i = ([], [])
        else length (fst ((([], []) # hs) ! i)) =
               nat \<lfloor>sqrt (real (length ((v # rest) ! i)))\<rfloor> \<and>
             length (snd ((([], []) # hs) ! i)) =
               nat \<lfloor>sqrt (real (length ((v # rest) ! i)))\<rfloor>"
      using True ih by (auto simp: nth_Cons split: nat.splits)
    ultimately show ?thesis using hs(2) by simp
  next
    case False
    let ?b = "nat \<lfloor>sqrt (real (length v))\<rfloor>"
    from False assms have "0 < length v" by auto
    then have "0 < ?b" by (rule floor_sqrt_pos)
    from np_histogram_lengths [OF this, of v] obtain hist edges where
      h: "np_histogram v ?b = Inr (hist, edges)" "length hist = ?b" "length edges = ?b + 1"
      by blast
    have "make_hists_loop min_number None (v # rest) = Inr ((bin_centres edges, hist) # hs)"
      using False by (simp add: hs h)
    moreover have "\<forall>i < length (v # rest).
        if int (length ((v # rest) ! i)) < min_number
        then ((bin_centres edges, hist) # hs) ! i = ([], [])
        else length (fst (((bin_centres edges, hist) # hs) ! i)) =
               nat \<lfloor>sqrt (real (length ((v # rest) ! i)))\<rfloor> \<and>
             length (snd (((bin_centres edges, hist) # hs) ! i)) =
               nat \<lfloor>sqrt (real (length ((v # rest) ! i)))\<rfloor>"
      using False ih h by (auto simp: nth_Cons length_bin_centres split: nat.splits)
    ultimately show ?thesis using hs(2) by simp
  qed
qed

text \<open>
  An instance with the default \<open>min_number = 10\<close>: a level of three values gets the
  placeholder and a level of fifteen values a histogram of three bins.
\<close>

theorem make_hists_default_bins_witness:
  "(1 :: int) \<le> 10 \<and>
   make_hists 10 None [[1, 2, 3], [0, 1, 2, 3, 4, 5, 6, 7, 8, 9, 10, 11, 12, 13, 14]] =
     Inr [([], []), ([7 / 3, 7, 35 / 3], [5, 5, 5])] \<and>
   (\<exists>hists. make_hists 10 None
        [[1, 2, 3], [0, 1, 2, 3, 4, 5, 6, 7, 8, 9, 10, 11, 12, 13, 14]] = Inr hists \<and>
      length hists = 2)"
proof -
  have h: "(1 :: int) \<le> 10" by simp
  have e: "make_hists 10 None [[1, 2, 3], [0, 1, 2, 3, 4, 5, 6, 7, 8, 9, 10, 11, 12, 13, 14]] =
     Inr [([], []), ([7 / 3, 7, 35 / 3], [5, 5, 5])]"
    by (simp add: make_hists_def floor_sqrt_15 np_histogram_def hist_range_def
        linspace_def bin_centres_def upt_rec)
  from make_hists_default_bins [OF h,
      of "[[1, 2, 3], [0, 1, 2, 3, 4, 5, 6, 7, 8, 9, 10, 11, 12, 13, 14]]"]
  obtain hists where
    "make_hists 10 None [[1, 2, 3], [0, 1, 2, 3, 4, 5, 6, 7, 8, 9, 10, 11, 12, 13, 14]] =
       Inr hists" "length hists = 2"
    by auto
  with h e show ?thesis by blast
qed

section \<open>Properties of the elliptical power-law fit\<close>

subsection \<open>The two fits and the fitter that is read\<close>

lemma abs_resid_sum_nonneg: "0 \<le> abs_resid_sum vals m x y"
  by (auto simp: abs_resid_sum_def intro!: sum_list_nonneg)

text \<open>
  Without bootstrap the function always returns, and its result is determined by the two
  calls of the minimiser. The second call writes to the object of the first call, so the
  heap ends with the covariance of the second fit in object 0 and nothing in object 1,
  the object that is returned when the second fit is kept.
\<close>

lemma fit_without_bootstrap:
  assumes "list_all isfinite values" and "length x = length y" and "length values = length x"
  shows "fit_elliptical_powerlaw lm draws values x y p0 ''LevMarq'' False niters alpha =
     (let vals = map fin_val values;
          first = lm p0 x y vals;
          second = lm (p0 \<lparr> theta := py_fmod (theta p0 + pi / 2) pi \<rparr>) x y vals;
          flipped = (abs_resid_sum vals (fst second) x y < abs_resid_sum vals (fst first) x y);
          kept = (if flipped then fst second else fst first)
      in Inr \<lparr> res_params = parameters kept,
               stderrs = (if flipped then [NaN, NaN, NaN, NaN]
                          else case snd second of None \<Rightarrow> [NaN, NaN, NaN, NaN]
                                                 | Some c \<Rightarrow> cov_stderrs c),
               fit_model = kept,
               fitter = (if flipped then 1 else 0),
               heap = [snd second, None],
               warned = (flipped \<or> snd second = None) \<rparr>)"
  using assms
  by (simp add: fit_elliptical_powerlaw_def new_fitter_def call_fitter_def Let_def
      split: prod.splits option.splits)

lemma np_percentile_returns:
  assumes "0 \<le> q" and "q \<le> 100"
  shows "\<exists>v. np_percentile a q = Inr v"
  using assms by (simp add: np_percentile_def Let_def)

lemma percentile_stderr_returns:
  assumes "0 \<le> alpha" and "alpha \<le> 1"
  shows "\<exists>v. percentile_stderr alpha row = Inr v"
proof -
  from assms have "0 \<le> 100 * (0.5 - alpha / 2)" "100 * (0.5 - alpha / 2) \<le> 100"
    "0 \<le> 100 * (0.5 + alpha / 2)" "100 * (0.5 + alpha / 2) \<le> 100"
    by simp_all
  then obtain lo hi where "np_percentile row (100 * (0.5 - alpha / 2)) = Inr lo"
    "np_percentile row (100 * (0.5 + alpha / 2)) = Inr hi"
    using np_percentile_returns by blast
  then show ?thesis
    by (simp add: percentile_stderr_def)
qed

lemma bootstrap_stderrs_returns:
  assumes "0 \<le> alpha" and "alpha \<le> 1"
  shows "\<exists>se. bootstrap_stderrs alpha cols = Inr se"
proof -
  obtain a b c d where
    "percentile_stderr alpha (map logamplitude cols) = Inr a"
    "percentile_stderr alpha (map ellip_transf cols) = Inr b"
    "percentile_stderr alpha (map theta cols) = Inr c"
    "percentile_stderr alpha (map gamma cols) = Inr d"
    using percentile_stderr_returns [OF assms] by meson
  then show ?thesis
    by (simp add: bootstrap_stderrs_def)
qed

text \<open>
  With bootstrap the function returns whenever the percentiles are in range, and the model
  it returns is chosen as without bootstrap.
\<close>

lemma fit_with_bootstrap:
  assumes "list_all isfinite values" and "length x = length y" and "length values = length x"
    and "0 \<le> alpha" and "alpha \<le> 1"
  shows "\<exists>r. fit_elliptical_powerlaw lm draws values x y p0 ''LevMarq'' True niters alpha = Inr r \<and>
     fit_model r =
       (let vals = map fin_val values;
            first = lm p0 x y vals;
            second = lm (p0 \<lparr> theta := py_fmod (theta p0 + pi / 2) pi \<rparr>) x y vals
        in if abs_resid_sum vals (fst second) x y < abs_resid_sum vals (fst first) x y
           then fst second else fst first) \<and>
     res_params r = parameters (fit_model r)"
proof -
  define vals where "vals = map fin_val values"
  obtain f1 c1 where l1: "lm p0 x y vals = (f1, c1)"
    by (cases "lm p0 x y vals")
  obtain f2 c2 where l2: "lm (p0 \<lparr> theta := py_fmod (theta p0 + pi / 2) pi \<rparr>) x y vals = (f2, c2)"
    by (cases "lm (p0 \<lparr> theta := py_fmod (theta p0 + pi / 2) pi \<rparr>) x y vals")
  define kept where
    "kept = (if abs_resid_sum vals f2 x y < abs_resid_sum vals f1 x y then f2 else f1)"
  obtain cols h5 where
    l3: "boot_loop lm draws kept vals x y (residuals vals kept x y) 0 niters [c2, None] = (cols, h5)"
    by (cases "boot_loop lm draws kept vals x y (residuals vals kept x y) 0 niters [c2, None]")
  obtain se where se: "bootstrap_stderrs alpha cols = Inr se"
    using bootstrap_stderrs_returns [OF assms(4,5)] by blast
  have "\<exists>f. fit_elliptical_powerlaw lm draws values x y p0 ''LevMarq'' True niters alpha =
      Inr \<lparr> res_params = parameters kept, stderrs = se, fit_model = kept,
            fitter = f, heap = h5, warned = False \<rparr>"
  proof (cases "abs_resid_sum vals f2 x y < abs_resid_sum vals f1 x y")
    case True
    then have "kept = f2" by (simp add: kept_def)
    with True assms(1-3) se l1 l2 l3 show ?thesis
      by (simp add: fit_elliptical_powerlaw_def new_fitter_def call_fitter_def Let_def
          vals_def)
  next
    case False
    then have "kept = f1" by (simp add: kept_def)
    with False assms(1-3) se l1 l2 l3 show ?thesis
      by (simp add: fit_elliptical_powerlaw_def new_fitter_def call_fitter_def Let_def
          vals_def)
  qed
  then show ?thesis
    using l1 l2 by (auto simp: Let_def kept_def vals_def)
qed

text \<open>
  C5. The minimiser is run from \<open>p0\<close> and from \<open>p0\<close> with theta replaced by
  \<open>(theta + pi / 2) mod pi\<close>. The model returned (and its parameters) is the second fit
  exactly when its sum of absolute residuals is strictly lower, so the returned model has
  the lower of the two sums and on a tie it is the fit from the given theta. This holds
  with and without bootstrap (with bootstrap, for \<open>alpha\<close> between 0 and 1, where the
  function returns).
\<close>

theorem fit_keeps_lower_residual:
  assumes "list_all isfinite values" and "length x = length y" and "length values = length x"
    and "bootstrap \<longrightarrow> 0 \<le> alpha \<and> alpha \<le> 1"
  shows "\<exists>r. fit_elliptical_powerlaw lm draws values x y p0 ''LevMarq'' bootstrap niters alpha
            = Inr r \<and>
     (let vals = map fin_val values;
          fit = fst (lm p0 x y vals);
          fit_f = fst (lm (p0 \<lparr> theta := py_fmod (theta p0 + pi / 2) pi \<rparr>) x y vals);
          resids = abs_resid_sum vals fit x y;
          resids_f = abs_resid_sum vals fit_f x y
      in fit_model r = (if resids_f < resids then fit_f else fit) \<and>
         res_params r = parameters (fit_model r) \<and>
         abs_resid_sum vals (fit_model r) x y = min resids resids_f \<and>
         (resids = resids_f \<longrightarrow> fit_model r = fit))"
proof (cases bootstrap)
  case True
  with assms(4) have "0 \<le> alpha" "alpha \<le> 1" by simp_all
  from fit_with_bootstrap [OF assms(1-3) this, of lm draws p0 niters] True
  show ?thesis
    by (auto simp: Let_def min_def)
next
  case False
  with fit_without_bootstrap [OF assms(1-3), of lm draws p0 niters alpha]
  show ?thesis
    by (auto simp: Let_def min_def)
qed

lemma py_fmod_half_pi: "py_fmod (pi / 2) pi = pi / 2"
  by (simp add: py_fmod_def)

lemma log10_quarter: "log 10 (1 / 4) = - 2 * log 10 2"
  using log_nat_power [of 2 10 2] by (simp add: log_divide)

lemma evaluate_point_theta0_x:
  "evaluate_point \<lparr> logamplitude = 0, ellip_transf = 0, theta = 0, gamma = -1 \<rparr> 1 0 = log 10 2"
  using log10_quarter by (simp add: evaluate_point_def Let_def power2_eq_square)

lemma evaluate_point_theta90_x:
  "evaluate_point \<lparr> logamplitude = 0, ellip_transf = 0, theta = pi / 2, gamma = -1 \<rparr> 1 0 = 0"
  by (simp add: evaluate_point_def Let_def power2_eq_square)

lemma evaluate_point_theta0_y:
  "evaluate_point \<lparr> logamplitude = 0, ellip_transf = 0, theta = 0, gamma = -1 \<rparr> 0 1 = 0"
  by (simp add: evaluate_point_def Let_def power2_eq_square)

lemma evaluate_point_theta90_y:
  "evaluate_point \<lparr> logamplitude = 0, ellip_transf = 0, theta = pi / 2, gamma = -1 \<rparr> 0 1 = log 10 2"
  using log10_quarter by (simp add: evaluate_point_def Let_def power2_eq_square)

text \<open>
  An instance, with bootstrap and the default \<open>niters\<close> and \<open>alpha\<close>: one data point on
  the x axis with value 0, a start with theta 0, and a minimiser that returns its start.
  The start with theta \<open>pi / 2\<close> has residual 0, the given one \<open>log10 2\<close>, and the model
  with theta \<open>pi / 2\<close> is returned.
\<close>

theorem fit_keeps_lower_residual_witness:
  "list_all isfinite [Fin 0] \<and> length [1 :: real] = length [0 :: real] \<and>
   length [Fin 0] = length [1 :: real] \<and> 0 \<le> (0.6827 :: real) \<and> (0.6827 :: real) \<le> 1 \<and>
   (\<exists>r. fit_elliptical_powerlaw (\<lambda>m x y z. (m, None)) (\<lambda>i. [0]) [Fin 0] [1] [0]
           \<lparr> logamplitude = 0, ellip_transf = 0, theta = 0, gamma = -1 \<rparr>
           ''LevMarq'' True 100 0.6827 = Inr r \<and>
        fit_model r = \<lparr> logamplitude = 0, ellip_transf = 0, theta = pi / 2, gamma = -1 \<rparr>)"
proof -
  have h1: "list_all isfinite [Fin 0]" by (simp add: isfinite_def)
  have h2: "length [1 :: real] = length [0 :: real]" by simp
  have h3: "length [Fin 0] = length [1 :: real]" by simp
  have h4: "True \<longrightarrow> 0 \<le> (0.6827 :: real) \<and> (0.6827 :: real) \<le> 1" by simp
  from fit_keeps_lower_residual [OF h1 h2 h3 h4, of "\<lambda>m x y z. (m, None)" "\<lambda>i. [0]"
      "\<lparr> logamplitude = 0, ellip_transf = 0, theta = 0, gamma = -1 \<rparr>" 100]
  obtain r where "fit_elliptical_powerlaw (\<lambda>m x y z. (m, None)) (\<lambda>i. [0]) [Fin 0] [1] [0]
           \<lparr> logamplitude = 0, ellip_transf = 0, theta = 0, gamma = -1 \<rparr>
           ''LevMarq'' True 100 0.6827 = Inr r"
     "fit_model r = \<lparr> logamplitude = 0, ellip_transf = 0, theta = pi / 2, gamma = -1 \<rparr>"
    by (auto simp: Let_def fin_val_def py_fmod_half_pi abs_resid_sum_def residuals_def
        evaluate_def evaluate_point_theta0_x evaluate_point_theta90_x)
  with h1 h2 h3 h4 show ?thesis by simp
qed

text \<open>
  C3. The claim says that without bootstrap the standard errors come from the covariance
  matrix of the fit that is kept. The second fit is run with the first fitter object, and
  the object \<open>fitter_f\<close> is never called. With a minimiser that returns its start and a
  covariance of the identity from theta 0 and four times the identity otherwise:
  when the second fit is kept (a point on the x axis), the object read is \<open>fitter_f\<close>,
  whose covariance is \<open>None\<close>, and the errors are NaN with a warning although the kept fit
  has a covariance; when the first fit is kept (a point on the y axis), the errors are 2,
  from the covariance of the second fit, not 1.
\<close>

theorem fit_covariance_of_other_fit:
  "fit_elliptical_powerlaw
     (\<lambda>m x y z. (m, Some (if theta m = 0
                           then [[1, 0, 0, 0], [0, 1, 0, 0], [0, 0, 1, 0], [0, 0, 0, 1]]
                           else [[4, 0, 0, 0], [0, 4, 0, 0], [0, 0, 4, 0], [0, 0, 0, 4]])))
     (\<lambda>i. []) [Fin 0] [1] [0] \<lparr> logamplitude = 0, ellip_transf = 0, theta = 0, gamma = -1 \<rparr>
     ''LevMarq'' False 100 0.6827 =
   Inr \<lparr> res_params = [0, 0, pi / 2, -1], stderrs = [NaN, NaN, NaN, NaN],
         fit_model = \<lparr> logamplitude = 0, ellip_transf = 0, theta = pi / 2, gamma = -1 \<rparr>,
         fitter = 1,
         heap = [Some [[4, 0, 0, 0], [0, 4, 0, 0], [0, 0, 4, 0], [0, 0, 0, 4]], None],
         warned = True \<rparr> \<and>
   fit_elliptical_powerlaw
     (\<lambda>m x y z. (m, Some (if theta m = 0
                           then [[1, 0, 0, 0], [0, 1, 0, 0], [0, 0, 1, 0], [0, 0, 0, 1]]
                           else [[4, 0, 0, 0], [0, 4, 0, 0], [0, 0, 4, 0], [0, 0, 0, 4]])))
     (\<lambda>i. []) [Fin 0] [0] [1] \<lparr> logamplitude = 0, ellip_transf = 0, theta = 0, gamma = -1 \<rparr>
     ''LevMarq'' False 100 0.6827 =
   Inr \<lparr> res_params = [0, 0, 0, -1], stderrs = [Fin 2, Fin 2, Fin 2, Fin 2],
         fit_model = \<lparr> logamplitude = 0, ellip_transf = 0, theta = 0, gamma = -1 \<rparr>,
         fitter = 0,
         heap = [Some [[4, 0, 0, 0], [0, 4, 0, 0], [0, 0, 4, 0], [0, 0, 0, 4]], None],
         warned = False \<rparr> \<and>
   cov_stderrs [[1, 0, 0, 0], [0, 1, 0, 0], [0, 0, 1, 0], [0, 0, 0, 1]] =
     [Fin 1, Fin 1, Fin 1, Fin 1]"
  by (simp add: fit_without_bootstrap isfinite_def fin_val_def py_fmod_half_pi Let_def
      abs_resid_sum_def residuals_def evaluate_def evaluate_point_theta0_x
      evaluate_point_theta90_x evaluate_point_theta0_y evaluate_point_theta90_y
      parameters_def cov_stderrs_def diag_def upt_rec)

subsection \<open>The bootstrap\<close>

text \<open>
  What one bootstrap iteration fits: the start is the kept model, the data are the
  unchanged values, and the second coordinate array is \<open>y\<close> plus the reordered residuals.
\<close>

lemma boot_iteration_call:
  "fst (boot_iteration lm kept vals x y resid perm h) =
     fst (lm kept x (map (\<lambda>(a, b). a + b) (zip y (reindex resid perm))) vals)"
  by (simp add: boot_iteration_def new_fitter_def call_fitter_def resamp_y_def
      split: prod.splits)

lemma set_insert_everywhere:
  "set (insert_everywhere a xs) = {ys. \<exists>us vs. xs = us @ vs \<and> ys = us @ a # vs}"
proof (induction xs)
  case Nil
  show ?case by auto
next
  case (Cons x xs)
  show ?case
  proof (rule set_eqI, rule iffI)
    fix ys
    assume "ys \<in> set (insert_everywhere a (x # xs))"
    then consider "ys = a # x # xs" | zs where "zs \<in> set (insert_everywhere a xs)" "ys = x # zs"
      by auto
    then show "ys \<in> {ys. \<exists>us vs. x # xs = us @ vs \<and> ys = us @ a # vs}"
    proof cases
      case 1
      then have "x # xs = [] @ (x # xs) \<and> ys = [] @ a # (x # xs)" by simp
      then show ?thesis by blast
    next
      case 2
      with Cons.IH obtain us vs where "xs = us @ vs" "zs = us @ a # vs" by auto
      with 2 have "x # xs = (x # us) @ vs \<and> ys = (x # us) @ a # vs" by simp
      then show ?thesis by blast
    qed
  next
    fix ys
    assume "ys \<in> {ys. \<exists>us vs. x # xs = us @ vs \<and> ys = us @ a # vs}"
    then obtain us vs where uv: "x # xs = us @ vs" "ys = us @ a # vs" by auto
    show "ys \<in> set (insert_everywhere a (x # xs))"
    proof (cases us)
      case Nil
      with uv have "ys = a # x # xs" by simp
      then show ?thesis by simp
    next
      case (Cons u us')
      with uv have "xs = us' @ vs" "ys = x # (us' @ a # vs)" by simp_all
      with Cons.IH show ?thesis by auto
    qed
  qed
qed

lemma mset_orderings: "ys \<in> set (orderings xs) \<Longrightarrow> mset ys = mset xs"
proof (induction xs arbitrary: ys)
  case Nil
  then show ?case by simp
next
  case (Cons x xs)
  then obtain zs where zs: "zs \<in> set (orderings xs)" "ys \<in> set (insert_everywhere x zs)"
    by auto
  then obtain us vs where "zs = us @ vs" "ys = us @ x # vs"
    by (auto simp: set_insert_everywhere)
  with Cons.IH [OF zs(1)] show ?case by auto
qed

text \<open>
  Whatever order is drawn, the reordered residuals are the residuals themselves, each
  taken exactly once.
\<close>

lemma reindex_is_reordering:
  assumes "perm \<in> set (permutation_outcomes (length resid))"
  shows "mset (reindex resid perm) = mset resid"
proof -
  from assms have "mset perm = mset [0..<length resid]"
    unfolding permutation_outcomes_def by (rule mset_orderings)
  then have "mset (map (\<lambda>j. resid ! j) perm) = mset (map (\<lambda>j. resid ! j) [0..<length resid])"
    by (metis mset_map)
  then show ?thesis
    by (simp add: reindex_def map_nth)
qed

text \<open>
  The formula of the standard error: half the distance between the two percentiles.
\<close>

lemma percentile_stderr_half_width:
  assumes "np_percentile row (100 * (0.5 - alpha / 2)) = Inr (Fin l)"
    and "np_percentile row (100 * (0.5 + alpha / 2)) = Inr (Fin u)"
  shows "percentile_stderr alpha row = Inr (Fin (0.5 * (u - l)))"
  using assms by (simp add: percentile_stderr_def)

lemma floor_small_fractions: "\<lfloor>3173 / 20000 :: real\<rfloor> = 0" "\<lfloor>16827 / 20000 :: real\<rfloor> = 0"
  by (simp_all add: floor_eq_iff)

text \<open>
  C1. The claim says that the residuals are resampled with replacement and the model is
  refitted to each resampled data set. The code reorders the residuals with
  \<open>np.random.permutation\<close>, so that a resample repeating a residual never occurs: for the
  residuals \<open>1, 2\<close> the only outcomes are \<open>1, 2\<close> and \<open>2, 1\<close>. It adds them to the
  coordinate array \<open>y\<close> and refits to the unchanged values. In the run below the two data
  points are at the origin with values 1 and 2, and the minimiser reports as
  logamplitude the first \<open>y\<close> coordinate it is given: in the two bootstrap iterations it is
  given 1 and 2, the reordered residuals, where the data have \<open>y = 0\<close>. The standard error
  is then half the width of the central 0.6827 interval between 1 and 2, as the claim
  says of the last step.
\<close>

theorem bootstrap_reorders_residuals_into_y:
  "map (reindex [1, 2]) (permutation_outcomes 2) = [[1, 2], [2, 1]] \<and>
   resamp_y [0, 0] [1, 2] [1, 0] = [2, 1] \<and>
   fit_elliptical_powerlaw
     (\<lambda>m x y z. (m \<lparr> logamplitude := hd y \<rparr>, None))
     (\<lambda>i. if i = 0 then [0, 1] else [1, 0]) [Fin 1, Fin 2] [0, 0] [0, 0]
     \<lparr> logamplitude = 0, ellip_transf = 0, theta = 0, gamma = -1 \<rparr>
     ''LevMarq'' True 2 0.6827 =
   Inr \<lparr> res_params = [0, 0, 0, -1], stderrs = [Fin 0.34135, Fin 0, Fin 0, Fin 0],
         fit_model = \<lparr> logamplitude = 0, ellip_transf = 0, theta = 0, gamma = -1 \<rparr>,
         fitter = 0,
         heap = [None, None, None, None],
         warned = False \<rparr>"
  by (simp add: fit_elliptical_powerlaw_def new_fitter_def call_fitter_def Let_def
      isfinite_def fin_val_def abs_resid_sum_def residuals_def evaluate_def
      evaluate_point_def parameters_def boot_iteration_def resamp_y_def reindex_def
      bootstrap_stderrs_def percentile_stderr_def np_percentile_def numeral_2_eq_2
      floor_small_fractions permutation_outcomes_def upt_rec)

end
